theory Spec2Isabelle
  imports Complex_Main "HOL-Library.AList"
begin

section \<open>Canvas engine: scene objects, registry, movement and collision\<close>

text \<open>
  The repository holds several generations of the same two classes.  The current one is
  the \<^verbatim>\<open>CanvasEngine\<close> that keeps its objects in a \<^verbatim>\<open>Map\<close>, drives every object
  from one frame loop and offers \<^verbatim>\<open>unregisterObject\<close>, together with the
  \<^verbatim>\<open>CanvasObject\<close> that owns a \<^verbatim>\<open>Movement\<close> record and an \<^verbatim>\<open>IntersectionObserver\<close>.
  It is embedded first and carries the plain names.  Of the older generation, which
  keeps its objects in an object literal, the registry, the pointer helper and the sweep
  of bounding rectangles inside \<^verbatim>\<open>setPosition\<close> are embedded, with the suffix
  \<open>_legacy\<close> where a name is taken (and \<open>_fabricating\<close> for the one revision of the
  sweep that invents an object).

  Conventions of the embedding:
  \<^item> JavaScript numbers are idealised as \<^typ>\<open>real\<close>: no rounding, no \<^verbatim>\<open>NaN\<close>, no
    infinities.
  \<^item> Objects are mutable and shared, so they live in a store (a list indexed by
    reference); the methods that touch one object only are functions on its record, the
    others thread the whole engine state.
  \<^item> Host callbacks are opaque: a call of one is recorded in a trace and is assumed
    not to re-enter the engine.
  \<^item> Readings of the clock, of \<^verbatim>\<open>Math.random\<close> and of the browser's layout are
    explicit arguments.
  \<^item> An exception is a value: the methods that can raise return the error next to
    the state they leave behind.
  \<^item> Styling, images, text and the input listeners are left out.
\<close>

subsection \<open>Values, errors and callbacks\<close>

type_synonym ref = nat
type_synonym callback = nat

datatype js_value =
    JSUndefined
  | JSNull
  | JSBool bool
  | JSNumber real
  | JSString string
  | JSObject nat

datatype error =
    TypeError
  | SyntaxError
  | InvalidCharacterError
  | HierarchyRequestError
  | NoContainer string

datatype event =
    Collision callback ref ref
  | CollisionNullable callback ref "ref option"
  | Destroyed callback ref

subsection \<open>The current \<^verbatim>\<open>CanvasObject\<close>: position and movement\<close>

record Movement =
  startX :: real
  startY :: real
  targetX :: real
  targetY :: real
  speed :: real
  startTime :: real
  duration :: real

datatype parentElement = Scene | Body | Content ref

text \<open>
  The two style fields hold the translation last written by \<^verbatim>\<open>#applyPosition\<close>:
  \<open>None\<close> is the style of the constructor, \<open>Some (a, b)\<close> a translation by \<open>a\<close> and \<open>b\<close>
  pixels.  \<open>observed\<close> is the set of targets of the object's intersection observer.
\<close>

record CanvasObject =
  objId :: string
  parent :: parentElement
  isChild :: bool
  isCamera :: bool
  pos :: "real \<times> real"
  movement :: "Movement option"
  collisionHandlers :: "(string \<times> callback) list"
  observed :: "ref list"
  vars :: "(string \<times> js_value) list"
  classList :: "string list"
  onDestroyCallback :: "callback option"
  containerTransform :: "(real \<times> real) option"
  parentTransform :: "(real \<times> real) option"
  removed :: bool

definition newCanvasObject :: "string \<Rightarrow> parentElement \<Rightarrow> bool \<Rightarrow> bool \<Rightarrow> CanvasObject" where
  "newCanvasObject i p child cam =
     \<lparr>objId = i, parent = p, isChild = child, isCamera = cam, pos = (0, 0),
      movement = None, collisionHandlers = [], observed = [], vars = [],
      classList = [], onDestroyCallback = None, containerTransform = None,
      parentTransform = None, removed = False\<rparr>"

text \<open>
  \<^verbatim>\<open>#applyPosition\<close>: a camera writes the opposite translation to the element its
  container hangs in, any other object translates its own container with the vertical
  axis flipped.  A camera whose container was removed has no parent element any more, so
  the write raises after the position was stored.
\<close>

definition applyPosition :: "real \<Rightarrow> real \<Rightarrow> CanvasObject \<Rightarrow> error option \<times> CanvasObject" where
  "applyPosition x y obj =
     (let obj1 = obj\<lparr>pos := (x, y)\<rparr> in
      if isCamera obj1 then
        (if removed obj1 then (Some TypeError, obj1)
         else (None, obj1\<lparr>parentTransform := Some (- x, y)\<rparr>))
      else (None, obj1\<lparr>containerTransform := Some (x, - y)\<rparr>))"

definition setPosition :: "real \<Rightarrow> real \<Rightarrow> CanvasObject \<Rightarrow> error option \<times> CanvasObject" where
  "setPosition x y obj = applyPosition x y (obj\<lparr>movement := None\<rparr>)"

definition getPosition :: "CanvasObject \<Rightarrow> real \<times> real" where
  "getPosition obj = pos obj"

definition hypot :: "real \<Rightarrow> real \<Rightarrow> real" where
  "hypot a b = sqrt (a\<^sup>2 + b\<^sup>2)"

text \<open>\<open>now\<close> is the reading of \<^verbatim>\<open>performance.now()\<close>, in milliseconds.\<close>

definition setMoveToPosition :: "real \<Rightarrow> real \<Rightarrow> real \<Rightarrow> real \<Rightarrow> CanvasObject \<Rightarrow> CanvasObject" where
  "setMoveToPosition x y spd now obj =
     (if spd \<le> 0 then obj
      else
        let dist = hypot (x - fst (pos obj)) (y - snd (pos obj)) in
        if dist = 0 then obj
        else obj\<lparr>movement := Some
               \<lparr>startX = fst (pos obj), startY = snd (pos obj), targetX = x, targetY = y,
                speed = spd, startTime = now, duration = dist / spd\<rparr>\<rparr>)"

definition setStopMovement :: "CanvasObject \<Rightarrow> CanvasObject" where
  "setStopMovement obj = obj\<lparr>movement := None\<rparr>"

text \<open>
  \<^verbatim>\<open>update(deltaTime)\<close> ignores its argument and reads the clock.  On arrival it calls
  \<^verbatim>\<open>setPosition\<close> and then clears the movement; were \<^verbatim>\<open>setPosition\<close> to raise, the
  statement after it would not run.
\<close>

definition update :: "real \<Rightarrow> real \<Rightarrow> CanvasObject \<Rightarrow> error option \<times> CanvasObject" where
  "update deltaTime now obj =
     (case movement obj of
        None \<Rightarrow> (None, obj)
      | Some m \<Rightarrow>
          let elapsed = (now - startTime m) / 1000 in
          if elapsed \<ge> duration m then
            (case setPosition (targetX m) (targetY m) obj of
               (Some err, obj1) \<Rightarrow> (Some err, obj1)
             | (None, obj1) \<Rightarrow> (None, obj1\<lparr>movement := None\<rparr>))
          else
            let t = elapsed / duration m;
                x = startX m + (targetX m - startX m) * t;
                y = startY m + (targetY m - startY m) * t
            in applyPosition x y obj)"

subsection \<open>The current \<^verbatim>\<open>CanvasObject\<close>: variables, tags and collision handlers\<close>

text \<open>\<^verbatim>\<open>#vars\<close> is a \<^verbatim>\<open>Map\<close>: \<^verbatim>\<open>get\<close> of a missing key is \<^verbatim>\<open>undefined\<close>.\<close>

definition setVariable :: "string \<Rightarrow> js_value \<Rightarrow> CanvasObject \<Rightarrow> CanvasObject" where
  "setVariable key v obj = obj\<lparr>vars := AList.update key v (vars obj)\<rparr>"

definition getVariable :: "string \<Rightarrow> CanvasObject \<Rightarrow> js_value" where
  "getVariable key obj = (case map_of (vars obj) key of None \<Rightarrow> JSUndefined | Some v \<Rightarrow> v)"

definition onDestroy :: "callback \<Rightarrow> CanvasObject \<Rightarrow> CanvasObject" where
  "onDestroy cb obj = obj\<lparr>onDestroyCallback := Some cb\<rparr>"

text \<open>
  \<^verbatim>\<open>classList.add\<close> raises on an empty token and on a token with ASCII whitespace, and
  adds a token only once.
\<close>

definition isAsciiWhitespace :: "char \<Rightarrow> bool" where
  "isAsciiWhitespace c = (c \<in> set [CHR 0x09, CHR 0x0A, CHR 0x0C, CHR 0x0D, CHR 0x20])"

definition tokenError :: "string \<Rightarrow> error option" where
  "tokenError t =
     (if t = [] then Some SyntaxError
      else if list_ex isAsciiWhitespace t then Some InvalidCharacterError
      else None)"

definition classListAdd :: "string \<Rightarrow> string list \<Rightarrow> string list" where
  "classListAdd t ts = (if t \<in> set ts then ts else ts @ [t])"

definition addClass :: "string \<Rightarrow> CanvasObject \<Rightarrow> error option \<times> CanvasObject" where
  "addClass className obj =
     (case tokenError className of
        Some err \<Rightarrow> (Some err, obj)
      | None \<Rightarrow> (None, obj\<lparr>classList := classListAdd className (classList obj)\<rparr>))"

text \<open>
  \<^verbatim>\<open>onCollisionTrigger\<close> first adopts the tag, then stores the handler, then asks the
  document for the elements that match the selector made of a dot and the tag, and lets
  its observer watch each of them but its own.  \<open>self\<close> is the reference of the object
  itself.  \<open>query\<close> is what \<^verbatim>\<open>document.querySelectorAll\<close> does with that selector:
  \<open>Some\<close> of the matching elements in document order, each named by the object it is
  the content of, or \<open>None\<close> when it raises because the selector is not valid (a tag
  such as \<^verbatim>\<open>1abc\<close> is a class token but no CSS identifier), which happens after the tag
  and the handler were stored.
\<close>

definition observe :: "ref list \<Rightarrow> ref \<Rightarrow> ref list" where
  "observe targets el = (if el \<in> set targets then targets else targets @ [el])"

definition onCollisionTrigger ::
  "string \<Rightarrow> callback \<Rightarrow> ref list option \<Rightarrow> ref \<Rightarrow> CanvasObject \<Rightarrow> error option \<times> CanvasObject" where
  "onCollisionTrigger targetClass cb query self obj =
     (case addClass targetClass obj of
        (Some err, obj1) \<Rightarrow> (Some err, obj1)
      | (None, obj1) \<Rightarrow>
          let obj2 = obj1\<lparr>collisionHandlers := AList.update targetClass cb (collisionHandlers obj1)\<rparr> in
          (case query of
             None \<Rightarrow> (Some SyntaxError, obj2)
           | Some els \<Rightarrow>
               (None, obj2\<lparr>observed := foldl observe (observed obj2) (filter (\<lambda>el. el \<noteq> self) els)\<rparr>)))"

subsection \<open>The current \<^verbatim>\<open>CanvasEngine\<close>\<close>

text \<open>
  \<open>objects\<close> is the \<^verbatim>\<open>Map\<close> from identity to object, in insertion order; \<open>store\<close> holds
  every object ever constructed, the camera at reference 0; \<open>console\<close> collects the
  warnings and \<open>trace\<close> the calls of host callbacks.
\<close>

record CanvasEngine =
  canvasId :: string
  objects :: "(string \<times> ref) list"
  mouse :: "real \<times> real"
  rafId :: int
  frameRequested :: bool
  camera :: ref
  lastTime :: real
  sceneAttached :: bool
  store :: "CanvasObject list"
  console :: "string list"
  trace :: "event list"

text \<open>
  The constructor raises when the document has no element of the given id.  \<open>rnd\<close> is
  the text \<^verbatim>\<open>Math.random().toString(36).slice(2)\<close> and \<open>handle\<close> the handle that
  \<^verbatim>\<open>requestAnimationFrame\<close> returns.
\<close>

definition newCanvasEngine :: "string \<Rightarrow> bool \<Rightarrow> string \<Rightarrow> int \<Rightarrow> error + CanvasEngine" where
  "newCanvasEngine cid container rnd handle =
     (if \<not> container then Inl (NoContainer cid)
      else Inr \<lparr>canvasId = cid, objects = [], mouse = (0, 0), rafId = handle,
                frameRequested = True, camera = 0, lastTime = 0, sceneAttached = True,
                store = [newCanvasObject (''cam-'' @ rnd) Scene False True],
                console = [], trace = []\<rparr>)"

definition alreadyExists :: "string \<Rightarrow> string" where
  "alreadyExists i = ''Object '' @ [CHR 0x22] @ i @ [CHR 0x22] @ '' already exists''"

definition createObject :: "string \<Rightarrow> CanvasEngine \<Rightarrow> ref \<times> CanvasEngine" where
  "createObject i e =
     (case map_of (objects e) i of
        Some r \<Rightarrow> (r, e\<lparr>console := console e @ [alreadyExists i]\<rparr>)
      | None \<Rightarrow>
          let r = length (store e) in
          (r, e\<lparr>store := store e @ [newCanvasObject i Scene False False],
                 objects := AList.update i r (objects e)\<rparr>))"

definition getCanvasObject :: "string \<Rightarrow> CanvasEngine \<Rightarrow> ref option" where
  "getCanvasObject i e = map_of (objects e) i"

definition getCameraObject :: "CanvasEngine \<Rightarrow> ref" where
  "getCameraObject e = camera e"

definition getCanvasId :: "CanvasEngine \<Rightarrow> string" where
  "getCanvasId e = canvasId e"

text \<open>
  The \<^verbatim>\<open>mousemove\<close> listener of the constructor: the pointer relative to the top left
  corner of the container, whose rectangle is read when the event arrives.
\<close>

definition mousemove :: "real \<times> real \<Rightarrow> real \<times> real \<Rightarrow> CanvasEngine \<Rightarrow> CanvasEngine" where
  "mousemove client corner e = e\<lparr>mouse := (fst client - fst corner, snd client - snd corner)\<rparr>"

definition getMousePosition :: "CanvasEngine \<Rightarrow> real \<times> real" where
  "getMousePosition e = mouse e"

definition unregisterObject :: "string \<Rightarrow> CanvasEngine \<Rightarrow> CanvasEngine" where
  "unregisterObject i e = e\<lparr>objects := AList.delete i (objects e)\<rparr>"

text \<open>A method of one object, run on the object a reference points to.\<close>

definition withObject :: "ref \<Rightarrow> (CanvasObject \<Rightarrow> CanvasObject) \<Rightarrow> CanvasEngine \<Rightarrow> CanvasEngine" where
  "withObject r f e = e\<lparr>store := (store e)[r := f (store e ! r)]\<rparr>"

definition createChild :: "string \<Rightarrow> ref \<Rightarrow> CanvasEngine \<Rightarrow> ref \<times> CanvasEngine" where
  "createChild i r e =
     (length (store e), e\<lparr>store := store e @ [newCanvasObject i (Content r) True False]\<rparr>)"

text \<open>
  The frame loop: every registered object is updated in the order of the \<^verbatim>\<open>Map\<close>;
  \<open>clock r\<close> is the reading of the clock while object \<open>r\<close> is updated.  A raising update
  ends the frame before the next one is requested.
\<close>

fun updateAll :: "real \<Rightarrow> (ref \<Rightarrow> real) \<Rightarrow> ref list \<Rightarrow> CanvasObject list \<Rightarrow> error option \<times> CanvasObject list" where
  "updateAll dt clock [] st = (None, st)"
| "updateAll dt clock (r # rs) st =
     (case update dt (clock r) (st ! r) of
        (Some err, obj) \<Rightarrow> (Some err, st[r := obj])
      | (None, obj) \<Rightarrow> updateAll dt clock rs (st[r := obj]))"

definition loop :: "real \<Rightarrow> (ref \<Rightarrow> real) \<Rightarrow> int \<Rightarrow> CanvasEngine \<Rightarrow> error option \<times> CanvasEngine" where
  "loop time clock handle e =
     (let dt = (time - lastTime e) / 1000;
          e1 = e\<lparr>lastTime := time\<rparr>
      in case updateAll dt clock (map snd (objects e1)) (store e1) of
           (Some err, st) \<Rightarrow> (Some err, e1\<lparr>store := st, frameRequested := False\<rparr>)
         | (None, st) \<Rightarrow> (None, e1\<lparr>store := st, rafId := handle\<rparr>))"

text \<open>
  The callback of an object's intersection observer.  An entry is a target element,
  named by the object it is the content of, and the browser's verdict whether it
  intersects the observer's root (the observer is made without a root, so that is the
  viewport).  The browser reports only targets the observer watches, which
  \<open>intersectionObserved\<close> adds.
\<close>

definition collisionObserverCallback :: "ref \<Rightarrow> (ref \<times> bool) list \<Rightarrow> CanvasEngine \<Rightarrow> event list" where
  "collisionObserverCallback r entries e =
     concat (map (\<lambda>(target, isIntersecting).
        if \<not> isIntersecting then []
        else concat (map (\<lambda>cls.
               case map_of (collisionHandlers (store e ! r)) cls of
                 None \<Rightarrow> []
               | Some handler \<Rightarrow>
                   (case getCanvasObject (objId (store e ! target)) e of
                      None \<Rightarrow> []
                    | Some other \<Rightarrow> [Collision handler r other]))
             (classList (store e ! target)))) entries)"

definition intersectionObserved :: "ref \<Rightarrow> (ref \<times> bool) list \<Rightarrow> CanvasEngine \<Rightarrow> event list" where
  "intersectionObserved r entries e =
     collisionObserverCallback r (filter (\<lambda>en. fst en \<in> set (observed (store e ! r))) entries) e"

text \<open>
  \<^verbatim>\<open>CanvasObject.destroy\<close>: the destroy callback, the observer disconnected, the
  object unregistered under its identity, the container removed.  (The input listeners
  it also removes are not part of the model.)
\<close>

definition destroy :: "ref \<Rightarrow> CanvasEngine \<Rightarrow> CanvasEngine" where
  "destroy r e =
     (let obj = store e ! r;
          e1 = (case onDestroyCallback obj of
                  None \<Rightarrow> e
                | Some cb \<Rightarrow> e\<lparr>trace := trace e @ [Destroyed cb r]\<rparr>);
          e2 = withObject r (\<lambda>obj. obj\<lparr>observed := []\<rparr>) e1;
          e3 = unregisterObject (objId obj) e2
      in withObject r (\<lambda>obj. obj\<lparr>removed := True\<rparr>) e3)"

text \<open>\<^verbatim>\<open>CanvasEngine.destroy\<close>.\<close>

definition CanvasEngine_destroy :: "CanvasEngine \<Rightarrow> CanvasEngine" where
  "CanvasEngine_destroy e =
     (let e1 = (if rafId e \<ge> 0 then e\<lparr>frameRequested := False\<rparr> else e);
          e2 = foldl (\<lambda>st r. destroy r st) e1 (map snd (objects e1))
      in e2\<lparr>objects := [], sceneAttached := False\<rparr>)"

subsection \<open>The older generation: document, objects and registry\<close>

text \<open>
  The older \<^verbatim>\<open>CanvasObject\<close> places its container with \<^verbatim>\<open>left\<close> and \<^verbatim>\<open>top\<close> and
  sweeps for collisions inside \<^verbatim>\<open>setPosition\<close>; the older \<^verbatim>\<open>CanvasEngine\<close> keeps its
  objects in an object literal.  The model covers identities that are not member names
  of \<^verbatim>\<open>Object.prototype\<close> and tags that are class tokens.

  The document is the forest of the content elements below the canvas, each node
  named by the object it belongs to; its preorder is the document order that
  \<^verbatim>\<open>getElementsByClassName\<close> enumerates.
\<close>

datatype dom = Node ref "dom list"

fun preorder :: "dom \<Rightarrow> ref list" where
  "preorder (Node r cs) = r # concat (map preorder cs)"

fun appendChild :: "ref \<Rightarrow> dom \<Rightarrow> dom \<Rightarrow> dom" where
  "appendChild p c (Node r cs) =
     (if r = p then Node r (cs @ [c]) else Node r (map (appendChild p c) cs))"

fun isNode :: "ref \<Rightarrow> dom \<Rightarrow> bool" where
  "isNode x (Node r cs) = (r = x)"

fun removeElement :: "ref \<Rightarrow> dom \<Rightarrow> dom" where
  "removeElement x (Node r cs) =
     Node r (map (removeElement x) (filter (\<lambda>c. \<not> isNode x c) cs))"

datatype css = Unset | Percent real | Px real | Calc real real

record DOMRect =
  rectX :: real
  rectY :: real
  rectWidth :: real
  rectHeight :: real

record CanvasObject_legacy =
  id_legacy :: string
  isCamera_legacy :: bool
  position :: "real \<times> real"
  collisionTriggers :: "(string \<times> callback) list"
  classes :: "string list"
  containerLeft :: css
  containerTop :: css

definition newCanvasObject_legacy :: "string \<Rightarrow> bool \<Rightarrow> bool \<Rightarrow> CanvasObject_legacy" where
  "newCanvasObject_legacy i child cam =
     \<lparr>id_legacy = i, isCamera_legacy = cam, position = (0, 0), collisionTriggers = [],
      classes = [],
      containerLeft = (if child then Percent 50 else Unset),
      containerTop = (if child then Percent 50 else Unset)\<rparr>"

text \<open>
  \<open>canvasObjects\<close> is the object literal, in the order of its keys; \<open>mousePosition\<close>
  has no initial value, so it is \<open>None\<close> (\<^verbatim>\<open>undefined\<close>) until the first pointer event;
  \<open>randomCalls\<close> counts the calls of \<^verbatim>\<open>Math.random\<close>.
\<close>

record CanvasEngine_legacy =
  canvasId_legacy :: string
  canvasObjects :: "(string \<times> ref) list"
  mousePosition :: "(real \<times> real) option"
  camera_legacy :: ref
  canvasLeft :: css
  canvasTop :: css
  canvasChildren :: "dom list"
  heap :: "CanvasObject_legacy list"
  alerts :: "string list"
  calls :: "event list"
  randomCalls :: nat

definition cameraId_legacy :: "string \<Rightarrow> string" where
  "cameraId_legacy random =
     ''camera-'' @ random @ ''.replace('' @ [CHR 0x22] @ ''0.'' @ [CHR 0x22] @ '', ''
       @ [CHR 0x22, CHR 0x22] @ '')''"

text \<open>
  Without the container the constructor alerts, there is no canvas, and the camera's
  constructor appends its container to the document itself, which the document refuses.  \<open>random n\<close> is the
  text of the \<open>n\<close>-th number \<^verbatim>\<open>Math.random\<close> returns.
\<close>

definition newCanvasEngine_legacy :: "string \<Rightarrow> bool \<Rightarrow> (nat \<Rightarrow> string) \<Rightarrow> error + CanvasEngine_legacy" where
  "newCanvasEngine_legacy cid container random =
     (if \<not> container then Inl HierarchyRequestError
      else Inr \<lparr>canvasId_legacy = cid, canvasObjects = [], mousePosition = None,
                camera_legacy = 0, canvasLeft = Percent 50, canvasTop = Percent 50,
                canvasChildren = [Node 0 []],
                heap = [newCanvasObject_legacy (cameraId_legacy (random 0)) False True],
                alerts = [], calls = [], randomCalls = 1\<rparr>)"

definition duplicateIds :: "string \<Rightarrow> string" where
  "duplicateIds i = ''CanvasObject with duplicate ids found: '' @ [CHR 0x22] @ i @ [CHR 0x22]"

text \<open>The older \<^verbatim>\<open>createObject\<close> constructs first, alerts on a taken identity and stores anyway.\<close>

definition createObject_legacy :: "string \<Rightarrow> CanvasEngine_legacy \<Rightarrow> ref \<times> CanvasEngine_legacy" where
  "createObject_legacy i e =
     (let r = length (heap e);
          e1 = e\<lparr>heap := heap e @ [newCanvasObject_legacy i False False],
                 canvasChildren := canvasChildren e @ [Node r []]\<rparr>;
          e2 = (if map_of (canvasObjects e1) i \<noteq> None
                then e1\<lparr>alerts := alerts e1 @ [duplicateIds i]\<rparr> else e1)
      in (r, e2\<lparr>canvasObjects := AList.update i r (canvasObjects e2)\<rparr>))"

definition getCanvasObject_legacy :: "string \<Rightarrow> CanvasEngine_legacy \<Rightarrow> ref option" where
  "getCanvasObject_legacy i e = map_of (canvasObjects e) i"

definition getCameraObject_legacy :: "CanvasEngine_legacy \<Rightarrow> ref" where
  "getCameraObject_legacy e = camera_legacy e"

definition withObject_legacy ::
  "ref \<Rightarrow> (CanvasObject_legacy \<Rightarrow> CanvasObject_legacy) \<Rightarrow> CanvasEngine_legacy \<Rightarrow> CanvasEngine_legacy" where
  "withObject_legacy r f e = e\<lparr>heap := (heap e)[r := f (heap e ! r)]\<rparr>"

definition createChild_legacy :: "string \<Rightarrow> ref \<Rightarrow> CanvasEngine_legacy \<Rightarrow> ref \<times> CanvasEngine_legacy" where
  "createChild_legacy i p e =
     (let r = length (heap e) in
      (r, e\<lparr>heap := heap e @ [newCanvasObject_legacy i True False],
             canvasChildren := map (appendChild p (Node r [])) (canvasChildren e)\<rparr>))"

definition onCollisionTrigger_legacy :: "string \<Rightarrow> callback \<Rightarrow> CanvasObject_legacy \<Rightarrow> CanvasObject_legacy" where
  "onCollisionTrigger_legacy targetClass func obj =
     obj\<lparr>collisionTriggers := AList.update targetClass func (collisionTriggers obj)\<rparr>"

definition addClass_legacy :: "string \<Rightarrow> CanvasObject_legacy \<Rightarrow> error option \<times> CanvasObject_legacy" where
  "addClass_legacy className obj =
     (case tokenError className of
        Some err \<Rightarrow> (Some err, obj)
      | None \<Rightarrow> (None, obj\<lparr>classes := classListAdd className (classes obj)\<rparr>))"

text \<open>The older \<^verbatim>\<open>destroy\<close> only takes the container out of the document.\<close>

definition destroy_legacy :: "ref \<Rightarrow> CanvasEngine_legacy \<Rightarrow> CanvasEngine_legacy" where
  "destroy_legacy r e =
     e\<lparr>canvasChildren := map (removeElement r) (filter (\<lambda>c. \<not> isNode r c) (canvasChildren e))\<rparr>"

subsection \<open>The older generation: pointer position\<close>

text \<open>
  The helper \<^verbatim>\<open>getMousePosition(canvasEngine, document, mouseEvent)\<close>: \<open>cameraPosition\<close>
  is the camera's position, \<open>canvasElementData\<close> the client rectangles of the canvas
  element (\<open>None\<close> when the element is missing) and \<open>client\<close> the event's \<^verbatim>\<open>clientX\<close> and
  \<^verbatim>\<open>clientY\<close>.
\<close>

definition getMousePosition_util :: "real \<times> real \<Rightarrow> DOMRect list option \<Rightarrow> real \<times> real \<Rightarrow> real \<times> real" where
  "getMousePosition_util cameraPosition canvasElementData client =
     (case canvasElementData of
        Some (r0 # rest) \<Rightarrow>
          (fst client - rectWidth r0 / 2 + fst cameraPosition,
           rectHeight r0 - snd client - rectHeight r0 / 2 + snd cameraPosition)
      | _ \<Rightarrow> (0, 0))"

definition mousemove_legacy :: "DOMRect list option \<Rightarrow> real \<times> real \<Rightarrow> CanvasEngine_legacy \<Rightarrow> CanvasEngine_legacy" where
  "mousemove_legacy canvasElementData client e =
     e\<lparr>mousePosition :=
         Some (getMousePosition_util (position (heap e ! getCameraObject_legacy e))
                 canvasElementData client)\<rparr>"

definition utils_getMousePosition :: "CanvasEngine_legacy \<Rightarrow> (real \<times> real) option" where
  "utils_getMousePosition e = mousePosition e"

subsection \<open>The older generation: \<^verbatim>\<open>setPosition\<close> and its collision sweep\<close>

text \<open>
  The assignments that open \<^verbatim>\<open>setPosition\<close>: the position, the container's \<^verbatim>\<open>left\<close>
  and \<^verbatim>\<open>top\<close>, and for the camera the opposite shift of the canvas.
\<close>

definition placeObject :: "real \<Rightarrow> real \<Rightarrow> ref \<Rightarrow> CanvasEngine_legacy \<Rightarrow> CanvasEngine_legacy" where
  "placeObject x y r e =
     (let e1 = withObject_legacy r
                 (\<lambda>obj. obj\<lparr>position := (x, y), containerLeft := Px x, containerTop := Px (- y)\<rparr>) e
      in if isCamera_legacy (heap e1 ! r)
         then e1\<lparr>canvasLeft := Calc 50 (- x), canvasTop := Calc 50 y\<rparr>
         else e1)"

definition getElementsByClassName :: "string \<Rightarrow> CanvasEngine_legacy \<Rightarrow> ref list" where
  "getElementsByClassName key e =
     filter (\<lambda>el. key \<in> set (classes (heap e ! el))) (concat (map preorder (canvasChildren e)))"

text \<open>
  The test of the sweep, on the rectangles \<^verbatim>\<open>getBoundingClientRect\<close> returns: \<^verbatim>\<open>x\<close> and
  \<^verbatim>\<open>y\<close> of such a rectangle are its left and its top edge.
\<close>

definition overlapping :: "DOMRect \<Rightarrow> DOMRect \<Rightarrow> bool" where
  "overlapping this other =
     (let distanceX = (rectWidth this + rectWidth other) / 2;
          distanceY = (rectHeight this + rectHeight other) / 2
      in \<bar>rectX this - rectX other\<bar> \<le> distanceX \<and> \<bar>rectY this - rectY other\<bar> \<le> distanceY)"

text \<open>The identity the sweep looks up: the element's id up to its first space.\<close>

definition otherId :: "string \<Rightarrow> string" where
  "otherId elementId = takeWhile (\<lambda>c. c \<noteq> CHR '' '') elementId"

text \<open>
  \<open>layout\<close> gives the bounding rectangle of every content element as the browser lays
  the document out after the assignments above.  An element detached from the document
  has the rectangle of zeros.
\<close>

definition boundingClientRect :: "(ref \<Rightarrow> DOMRect) \<Rightarrow> ref \<Rightarrow> CanvasEngine_legacy \<Rightarrow> DOMRect" where
  "boundingClientRect layout el e =
     (if el \<in> set (concat (map preorder (canvasChildren e))) then layout el
      else \<lparr>rectX = 0, rectY = 0, rectWidth = 0, rectHeight = 0\<rparr>)"

definition collidingElements :: "(ref \<Rightarrow> DOMRect) \<Rightarrow> ref \<Rightarrow> string \<Rightarrow> CanvasEngine_legacy \<Rightarrow> ref list" where
  "collidingElements layout self key e =
     filter (\<lambda>el. overlapping (boundingClientRect layout self e) (boundingClientRect layout el e))
       (getElementsByClassName key e)"

text \<open>
  The sweep of the revisions that hand the handler whatever the registry returns,
  \<^verbatim>\<open>null\<close> included.
\<close>

definition setPosition_legacy ::
  "(ref \<Rightarrow> DOMRect) \<Rightarrow> real \<Rightarrow> real \<Rightarrow> ref \<Rightarrow> CanvasEngine_legacy \<Rightarrow> CanvasEngine_legacy" where
  "setPosition_legacy layout x y r e =
     (let e1 = placeObject x y r e in
      e1\<lparr>calls := calls e1 @
           concat (map (\<lambda>(key, handler).
              map (\<lambda>el. CollisionNullable handler r
                          (getCanvasObject_legacy (otherId (id_legacy (heap e1 ! el))) e1))
                (collidingElements layout r key e1))
             (collisionTriggers (heap e1 ! r)))\<rparr>)"

text \<open>
  The sweep of the revision that falls back on
  \<^verbatim>\<open>createObject(`${Math.random()}`)\<close>.  An object made on the way carries no class,
  so the live collection the loop indexes stays the list it was when the loop began.
\<close>

fun notify_fabricating ::
  "(nat \<Rightarrow> string) \<Rightarrow> callback \<Rightarrow> ref \<Rightarrow> ref list \<Rightarrow> CanvasEngine_legacy \<Rightarrow> CanvasEngine_legacy" where
  "notify_fabricating random handler self [] e = e"
| "notify_fabricating random handler self (el # els) e =
     (case getCanvasObject_legacy (otherId (id_legacy (heap e ! el))) e of
        Some other \<Rightarrow>
          notify_fabricating random handler self els
            (e\<lparr>calls := calls e @ [Collision handler self other]\<rparr>)
      | None \<Rightarrow>
          let (other, e1) = createObject_legacy (random (randomCalls e))
                              (e\<lparr>randomCalls := Suc (randomCalls e)\<rparr>)
          in notify_fabricating random handler self els
               (e1\<lparr>calls := calls e1 @ [Collision handler self other]\<rparr>))"

definition setPosition_fabricating ::
  "(ref \<Rightarrow> DOMRect) \<Rightarrow> (nat \<Rightarrow> string) \<Rightarrow> real \<Rightarrow> real \<Rightarrow> ref \<Rightarrow> CanvasEngine_legacy \<Rightarrow> CanvasEngine_legacy" where
  "setPosition_fabricating layout random x y r e =
     (let e1 = placeObject x y r e in
      foldl (\<lambda>st (key, handler).
               notify_fabricating random handler r (collidingElements layout r key st) st)
        e1 (collisionTriggers (heap e1 ! r)))"

text \<open>
  The overlap the specification words: the distance of the centres against the half
  sums of the extents.
\<close>

definition centreOverlap :: "DOMRect \<Rightarrow> DOMRect \<Rightarrow> bool" where
  "centreOverlap a b =
     (\<bar>(rectX a + rectWidth a / 2) - (rectX b + rectWidth b / 2)\<bar> \<le> (rectWidth a + rectWidth b) / 2
      \<and> \<bar>(rectY a + rectHeight a / 2) - (rectY b + rectHeight b / 2)\<bar> \<le> (rectHeight a + rectHeight b) / 2)"

subsection \<open>Example states\<close>

text \<open>
  States the theorems below are instantiated at: an object and an engine as their
  constructors leave them, the engine after \<^verbatim>\<open>createObject("p")\<close>, after
  \<^verbatim>\<open>createObject("a")\<close> and \<^verbatim>\<open>createObject("b")\<close>, and after \<^verbatim>\<open>a\<close> and then \<^verbatim>\<open>b\<close>
  subscribed to the tag \<^verbatim>\<open>hit\<close>; for the older generation an engine as its constructor
  leaves it, one with a subscriber \<^verbatim>\<open>a\<close> and a tagged \<^verbatim>\<open>b\<close>, and one with a subscriber
  \<^verbatim>\<open>enemy\<close> and a tagged child \<^verbatim>\<open>sword\<close> of \<^verbatim>\<open>p\<close>, with the rectangles a layout may
  give their elements.
\<close>

definition exampleObject :: CanvasObject where
  "exampleObject = newCanvasObject ''a'' Scene False False"

definition exampleEngine :: CanvasEngine where
  "exampleEngine =
     \<lparr>canvasId = ''app'', objects = [], mouse = (0, 0), rafId = 1, frameRequested = True,
      camera = 0, lastTime = 0, sceneAttached = True,
      store = [newCanvasObject ''cam-k3'' Scene False True], console = [], trace = []\<rparr>"

definition onceCreated :: CanvasEngine where
  "onceCreated = snd (createObject ''p'' exampleEngine)"

definition twoObjects :: CanvasEngine where
  "twoObjects = snd (createObject ''b'' (snd (createObject ''a'' exampleEngine)))"

text \<open>
  \<^verbatim>\<open>a.onCollisionTrigger("hit", h7)\<close> and then \<^verbatim>\<open>b.onCollisionTrigger("hit", h8)\<close>.  The
  document answers each query with the elements that carry \<^verbatim>\<open>hit\<close> when it is asked, in
  document order: the element of \<^verbatim>\<open>a\<close> alone the first time, those of \<^verbatim>\<open>a\<close> and \<^verbatim>\<open>b\<close>
  the second time.
\<close>

definition subscribedA :: CanvasEngine where
  "subscribedA =
     withObject 1 (\<lambda>obj. snd (onCollisionTrigger ''hit'' 7 (Some [1]) 1 obj)) twoObjects"

definition subscribedAB :: CanvasEngine where
  "subscribedAB =
     withObject 2 (\<lambda>obj. snd (onCollisionTrigger ''hit'' 8 (Some [1, 2]) 2 obj)) subscribedA"

definition exampleEngine_legacy :: CanvasEngine_legacy where
  "exampleEngine_legacy =
     \<lparr>canvasId_legacy = ''app'', canvasObjects = [], mousePosition = None, camera_legacy = 0,
      canvasLeft = Percent 50, canvasTop = Percent 50, canvasChildren = [Node 0 []],
      heap = [newCanvasObject_legacy (cameraId_legacy ''0.25'') False True],
      alerts = [], calls = [], randomCalls = 1\<rparr>"

definition exampleRandom :: "nat \<Rightarrow> string" where
  "exampleRandom n = (if n = 0 then ''0.25'' else ''0.7312'')"

definition legacyAB :: CanvasEngine_legacy where
  "legacyAB =
     withObject_legacy 1 (onCollisionTrigger_legacy ''hit'' 7)
       (withObject_legacy 2 (\<lambda>obj. snd (addClass_legacy ''hit'' obj))
          (snd (createObject_legacy ''b'' (snd (createObject_legacy ''a'' exampleEngine_legacy)))))"

definition layoutInside :: "ref \<Rightarrow> DOMRect" where
  "layoutInside el =
     (if el = 1 then \<lparr>rectX = 95, rectY = 95, rectWidth = 10, rectHeight = 10\<rparr>
      else if el = 2 then \<lparr>rectX = 102, rectY = 102, rectWidth = 2, rectHeight = 2\<rparr>
      else \<lparr>rectX = 100, rectY = 100, rectWidth = 0, rectHeight = 0\<rparr>)"

definition layoutApart :: "ref \<Rightarrow> DOMRect" where
  "layoutApart el =
     (if el = 1 then \<lparr>rectX = 99, rectY = 99, rectWidth = 2, rectHeight = 2\<rparr>
      else if el = 2 then \<lparr>rectX = 105, rectY = 99, rectWidth = 10, rectHeight = 2\<rparr>
      else \<lparr>rectX = 100, rectY = 100, rectWidth = 0, rectHeight = 0\<rparr>)"

definition legacySword :: CanvasEngine_legacy where
  "legacySword =
     withObject_legacy 3 (onCollisionTrigger_legacy ''hit'' 7)
       (snd (createObject_legacy ''enemy''
          (withObject_legacy 2 (\<lambda>obj. snd (addClass_legacy ''hit'' obj))
             (snd (createChild_legacy ''sword'' 1
                (snd (createObject_legacy ''p'' exampleEngine_legacy)))))))"

definition layoutTouching :: "ref \<Rightarrow> DOMRect" where
  "layoutTouching el =
     (if el = 2 \<or> el = 3 then \<lparr>rectX = 95, rectY = 95, rectWidth = 10, rectHeight = 10\<rparr>
      else \<lparr>rectX = 300, rectY = 300, rectWidth = 0, rectHeight = 0\<rparr>)"

section \<open>Properties\<close>

subsection \<open>Movement\<close>

lemma hypot_eq_0_iff: "hypot a b = 0 \<longleftrightarrow> a = 0 \<and> b = 0"
  by (simp add: hypot_def sum_power2_eq_zero_iff)

lemma movement_setPosition: "movement (snd (setPosition x y obj)) = None"
  by (simp add: setPosition_def applyPosition_def Let_def)

lemma pos_setPosition: "pos (snd (setPosition x y obj)) = (x, y)"
  by (simp add: setPosition_def applyPosition_def Let_def)

lemma update_idle: "movement obj = None \<Longrightarrow> update dt now obj = (None, obj)"
  by (simp add: update_def)

lemma setMoveToPosition_creates:
  assumes "0 < spd" and "(x, y) \<noteq> pos obj"
  shows "movement (setMoveToPosition x y spd now obj) = Some
           \<lparr>startX = fst (pos obj), startY = snd (pos obj), targetX = x, targetY = y,
            speed = spd, startTime = now,
            duration = hypot (x - fst (pos obj)) (y - snd (pos obj)) / spd\<rparr>"
proof -
  from assms(2) have "x - fst (pos obj) \<noteq> 0 \<or> y - snd (pos obj) \<noteq> 0"
    by (cases "pos obj") auto
  then have "hypot (x - fst (pos obj)) (y - snd (pos obj)) \<noteq> 0"
    by (simp add: hypot_eq_0_iff)
  with assms(1) show ?thesis
    by (simp add: setMoveToPosition_def Let_def)
qed

lemma update_arrived:
  assumes "movement obj = Some m" and "duration m \<le> (now - startTime m) / 1000"
  shows "pos (snd (update dt now obj)) = (targetX m, targetY m)
         \<and> movement (snd (update dt now obj)) = None"
  using assms
  by (auto simp: update_def Let_def setPosition_def applyPosition_def
           split: prod.splits option.splits)

text \<open>Before arrival the object is on the segment, at the fraction of the time elapsed.\<close>

lemma update_under_way:
  assumes "movement obj = Some m" and "(now - startTime m) / 1000 < duration m"
  shows "pos (snd (update dt now obj)) =
           (startX m + (targetX m - startX m) * ((now - startTime m) / 1000 / duration m),
            startY m + (targetY m - startY m) * ((now - startTime m) / 1000 / duration m))
         \<and> movement (snd (update dt now obj)) = Some m"
  using assms
  by (auto simp: update_def Let_def applyPosition_def)

lemma ticks_idle:
  "movement obj = None \<Longrightarrow> foldl (\<lambda>ob tick. snd (update (fst tick) (snd tick) ob)) obj ticks = obj"
  by (induction ticks) (simp_all add: update_idle)

subsection \<open>The frame loop\<close>

lemma updateAll_idle:
  "r < length st \<Longrightarrow> movement (st ! r) = None \<Longrightarrow> snd (updateAll dt clock rs st) ! r = st ! r"
proof (induction rs arbitrary: st)
  case Nil
  then show ?case by simp
next
  case (Cons r' rs)
  show ?case
  proof (cases "r' = r")
    case True
    with Cons.prems have "update dt (clock r') (st ! r') = (None, st ! r)"
      by (simp add: update_idle)
    with True Cons show ?thesis by simp
  next
    case False
    obtain err obj where u: "update dt (clock r') (st ! r') = (err, obj)"
      by (cases "update dt (clock r') (st ! r')")
    show ?thesis
    proof (cases err)
      case None
      from Cons.prems False have "r < length (st[r' := obj])" "movement (st[r' := obj] ! r) = None"
        by simp_all
      from Cons.IH [OF this] u None False show ?thesis by simp
    next
      case (Some a)
      with u False show ?thesis by simp
    qed
  qed
qed

text \<open>A frame of the loop leaves an object without a movement as it is.\<close>

lemma loop_idle:
  assumes "r < length (store e)" and "movement (store e ! r) = None"
  shows "store (snd (loop time clock handle e)) ! r = store e ! r"
proof -
  obtain err st where u: "updateAll ((time - lastTime e) / 1000) clock (map snd (objects e)) (store e) = (err, st)"
    by (cases "updateAll ((time - lastTime e) / 1000) clock (map snd (objects e)) (store e)")
  from updateAll_idle [OF assms, of "(time - lastTime e) / 1000" clock "map snd (objects e)"] u
  have "st ! r = store e ! r" by simp
  with u show ?thesis by (cases err) (simp_all add: loop_def Let_def)
qed

lemma observed_update: "observed (snd (update dt now obj)) = observed obj"
  by (simp add: update_def Let_def setPosition_def applyPosition_def split: option.splits prod.splits)

lemma updateAll_observed:
  "observed (snd (updateAll dt clock rs st) ! r) = observed (st ! r)"
proof (induction rs arbitrary: st)
  case Nil
  then show ?case by simp
next
  case (Cons r' rs)
  obtain err obj where u: "update dt (clock r') (st ! r') = (err, obj)"
    by (cases "update dt (clock r') (st ! r')")
  then have o: "observed obj = observed (st ! r')"
    using observed_update [of dt "clock r'" "st ! r'"] by simp
  have same: "observed (st[r' := obj] ! r) = observed (st ! r)"
  proof (cases "r = r' \<and> r' < length st")
    case True
    with o show ?thesis by simp
  next
    case False
    then show ?thesis by (cases "r = r'") (simp_all add: list_update_beyond not_less)
  qed
  show ?case
  proof (cases err)
    case None
    with u Cons.IH [of "st[r' := obj]"] same show ?thesis by simp
  next
    case (Some a)
    with u same show ?thesis by simp
  qed
qed

text \<open>A frame of the loop changes neither the registry nor what an observer watches.\<close>

lemma loop_frame:
  "objects (snd (loop time clock handle e)) = objects e"
  "observed (store (snd (loop time clock handle e)) ! r) = observed (store e ! r)"
proof -
  obtain err st where u: "updateAll ((time - lastTime e) / 1000) clock (map snd (objects e)) (store e) = (err, st)"
    by (cases "updateAll ((time - lastTime e) / 1000) clock (map snd (objects e)) (store e)")
  from u show "objects (snd (loop time clock handle e)) = objects e"
    by (cases err) (simp_all add: loop_def Let_def)
  from updateAll_observed [of "(time - lastTime e) / 1000" clock "map snd (objects e)" "store e" r] u
  have "observed (st ! r) = observed (store e ! r)" by simp
  with u show "observed (store (snd (loop time clock handle e)) ! r) = observed (store e ! r)"
    by (cases err) (simp_all add: loop_def Let_def)
qed

subsection \<open>Variables\<close>

lemma getVariable_setVariable: "getVariable k (setVariable k v obj) = v"
  by (simp add: getVariable_def setVariable_def update_conv')

lemma getVariable_other: "k' \<noteq> k \<Longrightarrow> getVariable k' (setVariable k v obj) = getVariable k' obj"
  by (simp add: getVariable_def setVariable_def update_conv')

lemma getVariable_missing: "k \<notin> fst ` set (vars obj) \<Longrightarrow> getVariable k obj = JSUndefined"
proof -
  assume "k \<notin> fst ` set (vars obj)"
  then have "map_of (vars obj) k = None" by (simp add: map_of_eq_None_iff)
  then show ?thesis by (simp add: getVariable_def)
qed

subsection \<open>The registry\<close>

lemma filter_key_distinct:
  "distinct (map fst al) \<Longrightarrow> (k, v) \<in> set al \<Longrightarrow> filter (\<lambda>p. fst p = k) al = [(k, v)]"
proof (induction al)
  case Nil
  then show ?case by simp
next
  case (Cons p al)
  show ?case
  proof (cases "p = (k, v)")
    case True
    with Cons.prems(1) have "\<forall>q \<in> set al. fst q \<noteq> k" by force
    then have "filter (\<lambda>p. fst p = k) al = []" by (simp add: filter_empty_conv)
    with True show ?thesis by simp
  next
    case False
    with Cons.prems(2) have mem: "(k, v) \<in> set al" by simp
    then have "k \<in> fst ` set al" by force
    with Cons.prems(1) have "fst p \<noteq> k" by auto
    with Cons mem show ?thesis by simp
  qed
qed

lemma update_absent: "map_of al k = None \<Longrightarrow> AList.update k v al = al @ [(k, v)]"
  by (induction al) (auto split: if_splits)

lemma createObject_fresh:
  assumes "getCanvasObject i e = None"
  shows "createObject i e =
           (length (store e),
            e\<lparr>store := store e @ [newCanvasObject i Scene False False],
              objects := objects e @ [(i, length (store e))]\<rparr>)"
proof -
  from assms show ?thesis
    by (simp add: createObject_def getCanvasObject_def Let_def update_absent)
qed

lemma distinct_createObject:
  "distinct (map fst (objects e)) \<Longrightarrow> distinct (map fst (objects (snd (createObject i e))))"
  by (auto simp: createObject_def Let_def distinct_update split: option.splits)

lemma distinct_unregisterObject:
  "distinct (map fst (objects e)) \<Longrightarrow> distinct (map fst (objects (unregisterObject i e)))"
  by (simp add: unregisterObject_def distinct_delete)

lemma objects_withObject [simp]: "objects (withObject r f e) = objects e"
  by (simp add: withObject_def)

lemma store_withObject: "r < length (store e) \<Longrightarrow> store (withObject r f e) ! r = f (store e ! r)"
  by (simp add: withObject_def)

lemma store_withObject_other: "r' \<noteq> r \<Longrightarrow> store (withObject r f e) ! r' = store e ! r'"
  by (simp add: withObject_def)

lemma length_store_withObject [simp]: "length (store (withObject r f e)) = length (store e)"
  by (simp add: withObject_def)

lemma objects_destroy: "objects (destroy r e) = AList.delete (objId (store e ! r)) (objects e)"
  by (simp add: destroy_def Let_def unregisterObject_def withObject_def split: option.splits)

lemma distinct_destroy:
  "distinct (map fst (objects e)) \<Longrightarrow> distinct (map fst (objects (destroy r e)))"
  by (simp add: objects_destroy distinct_delete)

lemma length_store_destroy [simp]: "length (store (destroy r e)) = length (store e)"
  by (simp add: destroy_def Let_def unregisterObject_def withObject_def split: option.splits)

lemma store_destroy:
  "r < length (store e) \<Longrightarrow> store (destroy r e) ! r = (store e ! r)\<lparr>observed := [], removed := True\<rparr>"
  by (simp add: destroy_def Let_def unregisterObject_def withObject_def split: option.splits)

lemma store_destroy_other: "r' \<noteq> r \<Longrightarrow> store (destroy r e) ! r' = store e ! r'"
  by (simp add: destroy_def Let_def unregisterObject_def withObject_def split: option.splits)

lemma no_targets_no_calls:
  "observed (store e ! r) = [] \<Longrightarrow> intersectionObserved r entries e = []"
  by (simp add: intersectionObserved_def collisionObserverCallback_def)

subsection \<open>Tags, handlers and the observer\<close>

lemma mem_classListAdd: "t \<in> set (classListAdd t ts)"
  by (simp add: classListAdd_def)

lemma set_classListAdd: "set (classListAdd t ts) = insert t (set ts)"
  by (auto simp: classListAdd_def)

lemma set_foldl_observe: "set (foldl observe ts els) = set ts \<union> set els"
  by (induction els arbitrary: ts) (auto simp: observe_def)

lemma onCollisionTrigger_valid:
  assumes "tokenError tag = None"
  shows "snd (onCollisionTrigger tag cb query self obj) =
           obj\<lparr>classList := classListAdd tag (classList obj),
               collisionHandlers := AList.update tag cb (collisionHandlers obj),
               observed := (case query of None \<Rightarrow> observed obj
                            | Some els \<Rightarrow> foldl observe (observed obj) (filter (\<lambda>el. el \<noteq> self) els))\<rparr>"
    and "fst (onCollisionTrigger tag cb query self obj) = (case query of None \<Rightarrow> Some SyntaxError | Some els \<Rightarrow> None)"
  using assms by (simp_all add: onCollisionTrigger_def addClass_def Let_def split: option.splits)

lemma onCollisionTrigger_invalid:
  assumes "tokenError tag = Some err"
  shows "onCollisionTrigger tag cb query self obj = (Some err, obj)"
  using assms by (simp add: onCollisionTrigger_def addClass_def)

text \<open>
  After a subscription the observer watches what it watched before and the elements the
  document answered with, its own excepted; when the document rejects the selector it
  watches what it watched before.
\<close>

lemma onCollisionTrigger_watches:
  assumes "tokenError tag = None"
  shows "set (observed (snd (onCollisionTrigger tag cb (Some els) self obj)))
           = set (observed obj) \<union> (set els - {self})"
    and "observed (snd (onCollisionTrigger tag cb None self obj)) = observed obj"
  by (auto simp: onCollisionTrigger_valid(1) [OF assms] set_foldl_observe)

lemma onCollisionTrigger_adopts:
  assumes "tokenError tag = None"
  shows "tag \<in> set (classList (snd (onCollisionTrigger tag cb query self obj)))"
    and "map_of (collisionHandlers (snd (onCollisionTrigger tag cb query self obj))) tag = Some cb"
  by (simp_all add: onCollisionTrigger_valid(1) [OF assms] mem_classListAdd update_conv')

lemma callback_event:
  assumes "cls \<in> set (classList (store e ! t))"
    and "map_of (collisionHandlers (store e ! r)) cls = Some h"
    and "getCanvasObject (objId (store e ! t)) e = Some other"
  shows "Collision h r other \<in> set (collisionObserverCallback r [(t, True)] e)"
  using assms by (force simp: collisionObserverCallback_def)

lemma not_watched_silent:
  "t \<notin> set (observed (store e ! s)) \<Longrightarrow> intersectionObserved s [(t, b)] e = []"
  by (simp add: intersectionObserved_def collisionObserverCallback_def)

subsection \<open>The example states, evaluated\<close>

lemma exampleEngine_constructed: "newCanvasEngine ''app'' True ''k3'' 1 = Inr exampleEngine"
  by (simp add: newCanvasEngine_def exampleEngine_def)

lemma onceCreated_eq:
  "onceCreated = exampleEngine\<lparr>store := [newCanvasObject ''cam-k3'' Scene False True,
                                          newCanvasObject ''p'' Scene False False],
                                objects := [(''p'', 1)]\<rparr>"
  by (simp add: onceCreated_def createObject_def exampleEngine_def Let_def)

lemma twoObjects_eq:
  "twoObjects = exampleEngine
     \<lparr>store := [newCanvasObject ''cam-k3'' Scene False True, newCanvasObject ''a'' Scene False False,
                newCanvasObject ''b'' Scene False False],
      objects := [(''a'', 1), (''b'', 2)]\<rparr>"
  by (simp add: twoObjects_def createObject_def exampleEngine_def Let_def)

lemma token_hit: "tokenError ''hit'' = None"
  by (simp add: tokenError_def isAsciiWhitespace_def)

lemma subscribedA_eq:
  "subscribedA = twoObjects
     \<lparr>store := [newCanvasObject ''cam-k3'' Scene False True,
                (newCanvasObject ''a'' Scene False False)
                  \<lparr>classList := [''hit''], collisionHandlers := [(''hit'', 7)]\<rparr>,
                newCanvasObject ''b'' Scene False False]\<rparr>"
  by (simp add: subscribedA_def withObject_def onCollisionTrigger_valid token_hit twoObjects_eq
      exampleEngine_def newCanvasObject_def classListAdd_def)

lemma subscribedAB_eq:
  "subscribedAB = twoObjects
     \<lparr>store := [newCanvasObject ''cam-k3'' Scene False True,
                (newCanvasObject ''a'' Scene False False)
                  \<lparr>classList := [''hit''], collisionHandlers := [(''hit'', 7)]\<rparr>,
                (newCanvasObject ''b'' Scene False False)
                  \<lparr>classList := [''hit''], collisionHandlers := [(''hit'', 8)], observed := [1]\<rparr>]\<rparr>"
  by (simp add: subscribedAB_def subscribedA_eq withObject_def onCollisionTrigger_valid token_hit
      twoObjects_eq exampleEngine_def newCanvasObject_def classListAdd_def observe_def)

lemma exampleEngine_legacy_constructed:
  "newCanvasEngine_legacy ''app'' True exampleRandom = Inr exampleEngine_legacy"
  by (simp add: newCanvasEngine_legacy_def exampleEngine_legacy_def exampleRandom_def)

lemma legacyAB_eq:
  "legacyAB = exampleEngine_legacy
     \<lparr>canvasObjects := [(''a'', 1), (''b'', 2)],
      canvasChildren := [Node 0 [], Node 1 [], Node 2 []],
      heap := [newCanvasObject_legacy (cameraId_legacy ''0.25'') False True,
               (newCanvasObject_legacy ''a'' False False)\<lparr>collisionTriggers := [(''hit'', 7)]\<rparr>,
               (newCanvasObject_legacy ''b'' False False)\<lparr>classes := [''hit'']\<rparr>]\<rparr>"
  by (simp add: legacyAB_def createObject_legacy_def exampleEngine_legacy_def Let_def
      withObject_legacy_def onCollisionTrigger_legacy_def addClass_legacy_def token_hit
      classListAdd_def newCanvasObject_legacy_def)

lemma legacySword_eq:
  "legacySword = exampleEngine_legacy
     \<lparr>canvasObjects := [(''p'', 1), (''enemy'', 3)],
      canvasChildren := [Node 0 [], Node 1 [Node 2 []], Node 3 []],
      heap := [newCanvasObject_legacy (cameraId_legacy ''0.25'') False True,
               newCanvasObject_legacy ''p'' False False,
               (newCanvasObject_legacy ''sword'' True False)\<lparr>classes := [''hit'']\<rparr>,
               (newCanvasObject_legacy ''enemy'' False False)\<lparr>collisionTriggers := [(''hit'', 7)]\<rparr>]\<rparr>"
  by (simp add: legacySword_def createObject_legacy_def createChild_legacy_def
      exampleEngine_legacy_def Let_def withObject_legacy_def onCollisionTrigger_legacy_def
      addClass_legacy_def token_hit classListAdd_def newCanvasObject_legacy_def)

subsection \<open>The older registry\<close>

text \<open>The older \<^verbatim>\<open>createObject\<close> on a taken identity: one alert, and a new object in the entry.\<close>

lemma createObject_legacy_taken:
  assumes "getCanvasObject_legacy i e = Some r"
  shows "fst (createObject_legacy i e) = length (heap e)"
    and "alerts (snd (createObject_legacy i e)) = alerts e @ [duplicateIds i]"
    and "getCanvasObject_legacy i (snd (createObject_legacy i e)) = Some (length (heap e))"
  using assms
  by (simp_all add: createObject_legacy_def getCanvasObject_legacy_def Let_def update_conv')

subsection \<open>The older sweep\<close>

text \<open>On rectangles of one size the test of the sweep is the test on the centres.\<close>

lemma overlapping_same_size:
  "rectWidth a = rectWidth b \<Longrightarrow> rectHeight a = rectHeight b \<Longrightarrow> overlapping a b = centreOverlap a b"
  by (simp add: overlapping_def centreOverlap_def Let_def)

section \<open>The claims\<close>

text \<open>
  C1.  When the identity is already a key of the registry, \<^verbatim>\<open>createObject\<close> returns the
  registered object, leaves the store of objects and the registry as they are and adds
  one warning to the console; the registry holds one entry for the identity.
\<close>

theorem createObject_duplicate:
  assumes "getCanvasObject i e = Some r" and "distinct (map fst (objects e))"
  shows "createObject i e = (r, e\<lparr>console := console e @ [alreadyExists i]\<rparr>)
         \<and> filter (\<lambda>p. fst p = i) (objects (snd (createObject i e))) = [(i, r)]"
proof -
  from assms(1) have c: "createObject i e = (r, e\<lparr>console := console e @ [alreadyExists i]\<rparr>)"
    by (simp add: createObject_def getCanvasObject_def)
  from assms(1) have "(i, r) \<in> set (objects e)"
    by (simp add: getCanvasObject_def map_of_SomeD)
  with assms(2) have "filter (\<lambda>p. fst p = i) (objects e) = [(i, r)]"
    by (simp add: filter_key_distinct)
  with c show ?thesis by simp
qed

theorem createObject_duplicate_witness:
  "createObject ''p'' onceCreated = (1, onceCreated\<lparr>console := [alreadyExists ''p'']\<rparr>)
   \<and> filter (\<lambda>p. fst p = ''p'') (objects (snd (createObject ''p'' onceCreated))) = [(''p'', 1)]"
proof -
  have h1: "getCanvasObject ''p'' onceCreated = Some 1"
    by (simp add: onceCreated_eq getCanvasObject_def)
  have h2: "distinct (map fst (objects onceCreated))"
    by (simp add: onceCreated_eq)
  have c: "console onceCreated = []"
    by (simp add: onceCreated_eq exampleEngine_def)
  note dup = createObject_duplicate [OF h1 h2]
  have a: "createObject ''p'' onceCreated = (1, onceCreated\<lparr>console := [alreadyExists ''p'']\<rparr>)"
    using dup [THEN conjunct1] by (simp add: c)
  have b: "filter (\<lambda>p. fst p = ''p'') (objects (snd (createObject ''p'' onceCreated))) = [(''p'', 1)]"
    by (rule dup [THEN conjunct2])
  from a b show ?thesis by blast
qed

text \<open>
  C2.  After \<^verbatim>\<open>destroy()\<close> of an object the registry has no entry for the object's
  identity, the object's observer watches nothing, and whatever the browser reports
  afterwards, no handler of the object is called; a frame of the loop changes none of
  this.
\<close>

theorem destroy_unregisters:
  assumes "r < length (store e)"
  shows "getCanvasObject (objId (store e ! r)) (destroy r e) = None
         \<and> observed (store (destroy r e) ! r) = []
         \<and> intersectionObserved r entries (destroy r e) = []
         \<and> getCanvasObject (objId (store e ! r)) (snd (loop time clock handle (destroy r e))) = None
         \<and> intersectionObserved r entries (snd (loop time clock handle (destroy r e))) = []"
proof -
  have gone: "getCanvasObject (objId (store e ! r)) (destroy r e) = None"
    by (simp add: getCanvasObject_def objects_destroy delete_conv')
  have deaf: "observed (store (destroy r e) ! r) = []"
    using assms by (simp add: store_destroy)
  have gone': "getCanvasObject (objId (store e ! r)) (snd (loop time clock handle (destroy r e))) = None"
    using gone by (simp add: getCanvasObject_def loop_frame)
  have deaf': "observed (store (snd (loop time clock handle (destroy r e))) ! r) = []"
    using deaf by (simp add: loop_frame)
  from gone deaf gone' no_targets_no_calls [OF deaf] no_targets_no_calls [OF deaf']
  show ?thesis by simp
qed

theorem destroy_unregisters_witness:
  "getCanvasObject ''b'' subscribedAB = Some 2
   \<and> intersectionObserved 2 [(1, True)] subscribedAB = [Collision 8 2 1]
   \<and> getCanvasObject ''b'' (destroy 2 subscribedAB) = None
   \<and> intersectionObserved 2 [(1, True)] (destroy 2 subscribedAB) = []"
proof -
  have h1: "2 < length (store subscribedAB)"
    by (simp add: subscribedAB_eq twoObjects_eq)
  have i: "objId (store subscribedAB ! 2) = ''b''"
    by (simp add: subscribedAB_eq twoObjects_eq newCanvasObject_def)
  have h2: "getCanvasObject (objId (store subscribedAB ! 2)) subscribedAB = Some 2"
    by (simp add: i) (simp add: subscribedAB_eq twoObjects_eq getCanvasObject_def exampleEngine_def)
  have before: "intersectionObserved 2 [(1, True)] subscribedAB = [Collision 8 2 1]"
    by (simp add: subscribedAB_eq twoObjects_eq exampleEngine_def newCanvasObject_def
        getCanvasObject_def intersectionObserved_def collisionObserverCallback_def)
  from destroy_unregisters [OF h1, of "[(1, True)]"] h2 before show ?thesis
    by (simp add: i)
qed

text \<open>
  C3.  \<^verbatim>\<open>setMoveToPosition(x, y, speed)\<close> with a speed that is not positive, or with a
  target that is the current position, returns the object as it was: no movement is
  created, and position and movement state are unchanged.
\<close>

theorem setMoveToPosition_noop:
  assumes "spd \<le> 0 \<or> (x, y) = pos obj"
  shows "setMoveToPosition x y spd now obj = obj"
proof (cases "spd \<le> 0")
  case True
  then show ?thesis by (simp add: setMoveToPosition_def)
next
  case False
  with assms have "(x, y) = pos obj" by simp
  then have "x - fst (pos obj) = 0 \<and> y - snd (pos obj) = 0"
    by (cases "pos obj") auto
  then show ?thesis by (simp add: setMoveToPosition_def hypot_eq_0_iff)
qed

theorem setMoveToPosition_noop_witness:
  "setMoveToPosition 30 40 0 7 exampleObject = exampleObject
   \<and> setMoveToPosition 30 40 (- 5) 7 exampleObject = exampleObject
   \<and> setMoveToPosition 0 0 50 7 exampleObject = exampleObject"
  using setMoveToPosition_noop [of 0 30 40 exampleObject 7]
    setMoveToPosition_noop [of "- 5" 30 40 exampleObject 7]
    setMoveToPosition_noop [of 50 0 0 exampleObject 7]
  by (simp add: exampleObject_def newCanvasObject_def)

text \<open>
  C4.  A movement created by \<^verbatim>\<open>setMoveToPosition\<close> with a positive speed and a target
  other than the start has the duration distance over speed; an update at any clock
  reading with elapsed time at least the duration puts the object exactly on the target
  and clears the movement, in particular the update at elapsed time equal to the
  duration.
\<close>

theorem update_snaps_to_target:
  assumes "0 < spd" and "(x, y) \<noteq> pos obj"
    and "d = hypot (x - fst (pos obj)) (y - snd (pos obj)) / spd"
    and "d \<le> (now - t0) / 1000"
  shows "map_option duration (movement (setMoveToPosition x y spd t0 obj)) = Some d
         \<and> pos (snd (update dt now (setMoveToPosition x y spd t0 obj))) = (x, y)
         \<and> movement (snd (update dt now (setMoveToPosition x y spd t0 obj))) = None
         \<and> pos (snd (update dt (t0 + 1000 * d) (setMoveToPosition x y spd t0 obj))) = (x, y)
         \<and> movement (snd (update dt (t0 + 1000 * d) (setMoveToPosition x y spd t0 obj))) = None"
proof -
  let ?m = "\<lparr>startX = fst (pos obj), startY = snd (pos obj), targetX = x, targetY = y,
             speed = spd, startTime = t0, duration = d\<rparr>"
  have m: "movement (setMoveToPosition x y spd t0 obj) = Some ?m"
    using setMoveToPosition_creates [OF assms(1,2)] assms(3) by simp
  have "duration ?m \<le> (now - startTime ?m) / 1000"
    using assms(4) by simp
  from update_arrived [OF m this]
  have late: "pos (snd (update dt now (setMoveToPosition x y spd t0 obj))) = (x, y)
      \<and> movement (snd (update dt now (setMoveToPosition x y spd t0 obj))) = None"
    by simp
  have "duration ?m \<le> (t0 + 1000 * d - startTime ?m) / 1000"
    by simp
  from update_arrived [OF m this]
  have exact: "pos (snd (update dt (t0 + 1000 * d) (setMoveToPosition x y spd t0 obj))) = (x, y)
      \<and> movement (snd (update dt (t0 + 1000 * d) (setMoveToPosition x y spd t0 obj))) = None"
    by simp
  from m late exact show ?thesis by simp
qed

theorem update_snaps_to_target_witness:
  "map_option duration (movement (setMoveToPosition 100 0 50 0 exampleObject)) = Some 2
   \<and> pos (snd (update 0 2500 (setMoveToPosition 100 0 50 0 exampleObject))) = (100, 0)
   \<and> movement (snd (update 0 2500 (setMoveToPosition 100 0 50 0 exampleObject))) = None
   \<and> pos (snd (update 0 2000 (setMoveToPosition 100 0 50 0 exampleObject))) = (100, 0)
   \<and> movement (snd (update 0 2000 (setMoveToPosition 100 0 50 0 exampleObject))) = None"
proof -
  have p: "pos exampleObject = (0, 0)"
    by (simp add: exampleObject_def newCanvasObject_def)
  have h1: "(0::real) < 50" by simp
  have h2: "(100::real, 0::real) \<noteq> pos exampleObject" by (simp add: p)
  have h3: "(2::real) = hypot (100 - fst (pos exampleObject)) (0 - snd (pos exampleObject)) / 50"
    by (simp add: p hypot_def)
  have h4: "(2::real) \<le> (2500 - 0) / 1000" by simp
  from update_snaps_to_target [OF h1 h2 h3 h4, of 0] show ?thesis by simp
qed

text \<open>
  C5.  \<^verbatim>\<open>setPosition(x, y)\<close> clears the movement and stores the position; after it an
  update at any clock reading, any sequence of updates, and a frame of the engine's
  loop leave the object as it is.
\<close>

theorem setPosition_clears_movement:
  "movement (snd (setPosition x y obj)) = None
   \<and> pos (snd (setPosition x y obj)) = (x, y)
   \<and> update dt now (snd (setPosition x y obj)) = (None, snd (setPosition x y obj))
   \<and> foldl (\<lambda>ob tick. snd (update (fst tick) (snd tick) ob)) (snd (setPosition x y obj)) ticks
       = snd (setPosition x y obj)
   \<and> (r < length (store e) \<longrightarrow>
        store (snd (loop time clock handle (withObject r (\<lambda>ob. snd (setPosition x y ob)) e))) ! r
          = snd (setPosition x y (store e ! r)))"
proof -
  have "store (snd (loop time clock handle (withObject r (\<lambda>ob. snd (setPosition x y ob)) e))) ! r
          = snd (setPosition x y (store e ! r))" if "r < length (store e)"
  proof -
    let ?e = "withObject r (\<lambda>ob. snd (setPosition x y ob)) e"
    from that have at: "store ?e ! r = snd (setPosition x y (store e ! r))"
      by (simp add: store_withObject)
    from that have "r < length (store ?e)" by simp
    moreover have "movement (store ?e ! r) = None"
      by (simp add: at movement_setPosition)
    ultimately have "store (snd (loop time clock handle ?e)) ! r = store ?e ! r"
      by (rule loop_idle)
    with at show ?thesis by simp
  qed
  then show ?thesis
    by (simp add: movement_setPosition pos_setPosition update_idle ticks_idle)
qed

theorem setPosition_clears_movement_witness:
  "movement (setMoveToPosition 100 0 50 0 exampleObject) \<noteq> None
   \<and> movement (snd (setPosition 3 4 (setMoveToPosition 100 0 50 0 exampleObject))) = None
   \<and> pos (snd (update 0 2500 (snd (setPosition 3 4 (setMoveToPosition 100 0 50 0 exampleObject)))))
       = (3, 4)
   \<and> pos (store (snd (loop 2500 (\<lambda>r. 2500) 2
        (withObject 1 (\<lambda>ob. snd (setPosition 3 4 ob))
           (withObject 1 (setMoveToPosition 100 0 50 0) onceCreated)))) ! 1) = (3, 4)"
proof -
  have active: "movement (setMoveToPosition 100 0 50 0 exampleObject) \<noteq> None"
    by (simp add: setMoveToPosition_def exampleObject_def newCanvasObject_def hypot_def Let_def)
  have len: "1 < length (store (withObject 1 (setMoveToPosition 100 0 50 0) onceCreated))"
    by (simp add: onceCreated_eq)
  from setPosition_clears_movement [of 3 4 "setMoveToPosition 100 0 50 0 exampleObject" 0 2500 "[]"
      1 "withObject 1 (setMoveToPosition 100 0 50 0) onceCreated" 2500 "\<lambda>r. 2500" 2] active len
  show ?thesis by (simp add: pos_setPosition)
qed

text \<open>
  C6 has a position change call the handler of a tag for exactly the elements with the
  tag whose rectangle overlaps the object's, judged by the distance of the centres.  The
  sweep of the older \<^verbatim>\<open>setPosition\<close> judges by the distance of the left and of the top
  edges.  Here \<^verbatim>\<open>a\<close> subscribes to \<^verbatim>\<open>hit\<close> and \<^verbatim>\<open>b\<close> carries it.  With \<^verbatim>\<open>b\<close>, 2 by 2,
  inside \<^verbatim>\<open>a\<close>, 10 by 10, the centres overlap and the handler is not called; with \<^verbatim>\<open>a\<close>,
  2 by 2, four pixels to the left of \<^verbatim>\<open>b\<close>, 10 by 2, the centres do not overlap and the
  handler is called.
\<close>

theorem sweep_uses_corners:
  "getElementsByClassName ''hit'' (placeObject 0 0 1 legacyAB) = [2]
   \<and> centreOverlap (layoutInside 1) (layoutInside 2)
   \<and> calls (setPosition_legacy layoutInside 0 0 1 legacyAB) = []
   \<and> \<not> centreOverlap (layoutApart 1) (layoutApart 2)
   \<and> calls (setPosition_legacy layoutApart 0 0 1 legacyAB) = [CollisionNullable 7 1 (Some 2)]"
  by (simp add: legacyAB_eq exampleEngine_legacy_def setPosition_legacy_def placeObject_def
      withObject_legacy_def newCanvasObject_legacy_def getElementsByClassName_def
      collidingElements_def boundingClientRect_def overlapping_def centreOverlap_def
      layoutInside_def layoutApart_def getCanvasObject_legacy_def otherId_def Let_def)

text \<open>
  C7 has a sweep that meets a tagged element it cannot resolve to a registered object
  report it as such and never create an object.  Here \<^verbatim>\<open>enemy\<close> subscribes to \<^verbatim>\<open>hit\<close>;
  the child \<^verbatim>\<open>sword\<close> of \<^verbatim>\<open>p\<close> carries the tag and, being a child, is not in the
  registry.  When the two overlap, the sweep of the revision with the fallback registers
  a new object under a random identity and hands it to the handler, without an alert;
  the other revisions hand the handler \<^verbatim>\<open>null\<close> and leave the registry alone.
\<close>

theorem sweep_fabricates_object:
  "getCanvasObject_legacy ''sword'' legacySword = None
   \<and> canvasObjects legacySword = [(''p'', 1), (''enemy'', 3)]
   \<and> length (heap legacySword) = 4
   \<and> canvasObjects (setPosition_fabricating layoutTouching exampleRandom 0 0 3 legacySword)
       = [(''p'', 1), (''enemy'', 3), (''0.7312'', 4)]
   \<and> length (heap (setPosition_fabricating layoutTouching exampleRandom 0 0 3 legacySword)) = 5
   \<and> calls (setPosition_fabricating layoutTouching exampleRandom 0 0 3 legacySword)
       = [Collision 7 3 4]
   \<and> alerts (setPosition_fabricating layoutTouching exampleRandom 0 0 3 legacySword) = []
   \<and> calls (setPosition_legacy layoutTouching 0 0 3 legacySword) = [CollisionNullable 7 3 None]
   \<and> canvasObjects (setPosition_legacy layoutTouching 0 0 3 legacySword) = [(''p'', 1), (''enemy'', 3)]"
  by (simp add: legacySword_eq exampleEngine_legacy_def setPosition_fabricating_def
      setPosition_legacy_def placeObject_def
      withObject_legacy_def newCanvasObject_legacy_def getElementsByClassName_def
      collidingElements_def boundingClientRect_def overlapping_def
      layoutTouching_def getCanvasObject_legacy_def otherId_def Let_def
      createObject_legacy_def exampleRandom_def)

text \<open>
  C8 has \<^verbatim>\<open>onCollisionTrigger(tag, handler)\<close> add the tag to the object's own class list
  so that any other object subscribed to the same tag can detect it, each side's handler
  being called with itself and the other.  The method does add the tag, but its observer
  watches only the elements that carry the tag when the method is called.  Here \<^verbatim>\<open>a\<close>
  subscribes to \<^verbatim>\<open>hit\<close> and then \<^verbatim>\<open>b\<close> does.  Afterwards \<^verbatim>\<open>b\<close> carries the tag and is
  registered and \<^verbatim>\<open>a\<close> has a handler for the tag, yet the observer of \<^verbatim>\<open>a\<close> watches
  nothing, so no report about \<^verbatim>\<open>b\<close> reaches the handler of \<^verbatim>\<open>a\<close>; only the handler of
  \<^verbatim>\<open>b\<close> is called, with \<^verbatim>\<open>b\<close> and \<^verbatim>\<open>a\<close>.
\<close>

theorem earlier_subscriber_not_notified:
  "''hit'' \<in> set (classList (store subscribedAB ! 1))
   \<and> ''hit'' \<in> set (classList (store subscribedAB ! 2))
   \<and> getCanvasObject ''a'' subscribedAB = Some 1
   \<and> getCanvasObject ''b'' subscribedAB = Some 2
   \<and> map_of (collisionHandlers (store subscribedAB ! 1)) ''hit'' = Some 7
   \<and> map_of (collisionHandlers (store subscribedAB ! 2)) ''hit'' = Some 8
   \<and> observed (store subscribedAB ! 1) = []
   \<and> observed (store subscribedAB ! 2) = [1]
   \<and> intersectionObserved 1 [(2, True)] subscribedAB = []
   \<and> intersectionObserved 2 [(1, True)] subscribedAB = [Collision 8 2 1]"
  by (simp add: subscribedAB_eq twoObjects_eq exampleEngine_def newCanvasObject_def
      getCanvasObject_def intersectionObserved_def collisionObserverCallback_def)

text \<open>
  C9, as stated, fails.  In the current engine, with the camera at \<open>(10, 0)\<close> and the
  pointer at the centre of a container of 800 by 600, \<^verbatim>\<open>getMousePosition()\<close> is
  \<open>(400, 300)\<close>; in the older engine the query before any pointer event is
  \<^verbatim>\<open>undefined\<close>.
\<close>

theorem pointer_position_counterexample:
  "getMousePosition (mousemove (400, 300) (0, 0)
      (withObject (getCameraObject exampleEngine) (\<lambda>obj. snd (setPosition 10 0 obj)) exampleEngine))
     = (400, 300)
   \<and> pos (store (withObject (getCameraObject exampleEngine) (\<lambda>obj. snd (setPosition 10 0 obj)) exampleEngine)
            ! getCameraObject exampleEngine) = (10, 0)
   \<and> (400 :: real, 300 :: real) \<noteq> (10, 0)
   \<and> newCanvasEngine_legacy ''app'' True exampleRandom = Inr exampleEngine_legacy
   \<and> utils_getMousePosition exampleEngine_legacy = None"
  by (simp add: getMousePosition_def mousemove_def withObject_def getCameraObject_def exampleEngine_def
      setPosition_def applyPosition_def newCanvasObject_def utils_getMousePosition_def
      exampleEngine_legacy_constructed) (simp add: exampleEngine_legacy_def)

text \<open>
  C9, amended.  The older helper returns the pointer relative to the centre of the
  canvas element's first client rectangle, the vertical axis flipped and the camera's
  position added, so the camera at \<open>(10, 0)\<close> and the pointer at the centre give
  \<open>(10, 0)\<close>; without a client rectangle it returns the origin; the older engine stores
  what the helper returns.  The current engine returns the pointer relative to the top
  left corner of the container, without the camera, and the origin before any pointer
  event.
\<close>

theorem pointer_position:
  "getMousePosition_util cam (Some (r0 # rest)) (cx, cy)
     = (cx - rectWidth r0 / 2 + fst cam, rectHeight r0 - cy - rectHeight r0 / 2 + snd cam)
   \<and> getMousePosition_util (10, 0)
        (Some (\<lparr>rectX = l, rectY = t, rectWidth = w, rectHeight = h\<rparr> # rest)) (w / 2, h / 2) = (10, 0)
   \<and> getMousePosition_util cam None client = (0, 0)
   \<and> getMousePosition_util cam (Some []) client = (0, 0)
   \<and> utils_getMousePosition (mousemove_legacy rects client e)
       = Some (getMousePosition_util (position (heap e ! getCameraObject_legacy e)) rects client)
   \<and> getMousePosition (mousemove (cx, cy) (l, t) e') = (cx - l, cy - t)
   \<and> (case newCanvasEngine cid container rnd handle of
         Inl err \<Rightarrow> \<not> container
       | Inr e0 \<Rightarrow> getMousePosition e0 = (0, 0))"
  by (simp add: getMousePosition_util_def utils_getMousePosition_def mousemove_legacy_def
      getMousePosition_def mousemove_def newCanvasEngine_def)

theorem pointer_position_witness:
  "getMousePosition_util (10, 0)
      (Some [\<lparr>rectX = 0, rectY = 0, rectWidth = 800, rectHeight = 600\<rparr>]) (400, 300) = (10, 0)
   \<and> getMousePosition (mousemove (400, 300) (0, 0) exampleEngine) = (400, 300)
   \<and> getMousePosition exampleEngine = (0, 0)"
  using pointer_position [where rest = "[]" and l = 0 and t = 0 and w = 800 and h = 600
      and cx = 400 and cy = 300 and e' = exampleEngine and cid = "''app''" and container = True
      and rnd = "''k3''" and handle = 1]
  by (simp add: exampleEngine_constructed)

text \<open>
  C10, as stated, fails on the \<^verbatim>\<open>Map\<close> of the current object: a stored \<^verbatim>\<open>null\<close> comes
  back as \<^verbatim>\<open>null\<close>, a key never stored as \<^verbatim>\<open>undefined\<close>.
\<close>

theorem getVariable_null_counterexample:
  "getVariable ''k'' (setVariable ''k'' JSNull exampleObject) = JSNull
   \<and> getVariable ''k'' exampleObject = JSUndefined
   \<and> getVariable ''k'' (setVariable ''k'' JSNull exampleObject) \<noteq> getVariable ''k'' exampleObject"
  by (simp add: getVariable_def setVariable_def exampleObject_def newCanvasObject_def)

text \<open>
  C10, amended.  \<^verbatim>\<open>getVariable(k)\<close> after \<^verbatim>\<open>setVariable(k, v)\<close> is \<open>v\<close>, for every value,
  \<^verbatim>\<open>null\<close> and \<^verbatim>\<open>undefined\<close> included; for a key that was never stored, and on a new
  object, it is \<^verbatim>\<open>undefined\<close>.
\<close>

theorem getVariable_returns_stored:
  "getVariable k (setVariable k v obj) = v
   \<and> (k \<notin> fst ` set (vars obj) \<longrightarrow> getVariable k obj = JSUndefined)
   \<and> getVariable k (newCanvasObject i p child cam) = JSUndefined"
  by (simp add: getVariable_setVariable getVariable_missing) (simp add: getVariable_def newCanvasObject_def)

theorem getVariable_returns_stored_witness:
  "getVariable ''hp'' (setVariable ''hp'' (JSNumber 3) exampleObject) = JSNumber 3
   \<and> getVariable ''hp'' (setVariable ''hp'' JSNull exampleObject) = JSNull
   \<and> getVariable ''mp'' (setVariable ''hp'' (JSNumber 3) exampleObject) = JSUndefined"
proof -
  have "''mp'' \<notin> fst ` set (vars (setVariable ''hp'' (JSNumber 3) exampleObject))"
    by (simp add: setVariable_def exampleObject_def newCanvasObject_def)
  with getVariable_returns_stored [of "''hp''" "JSNumber 3" exampleObject]
    getVariable_returns_stored [of "''hp''" JSNull exampleObject]
    getVariable_returns_stored [of "''mp''" JSNull "setVariable ''hp'' (JSNumber 3) exampleObject"]
  show ?thesis by simp
qed

end
